theory Spec2Isabelle
  imports Main "HOL-Library.Word"
begin

section \<open>C++ types, type identity and exceptions\<close>

text \<open>
  A \<open>std::type_info\<close> object is identified by the name of the type it describes; two
  \<open>std::type_index\<close> values are equal exactly when they describe the same type.
\<close>

type_synonym type_info = string

definition typeid_void :: type_info where
  "typeid_void = ''void''"

text \<open>
  A template argument \<open>_T\<close> is a class or scalar type, possibly const-qualified, possibly
  behind an lvalue or rvalue reference: \<open>U\<close>, \<open>const U\<close>, \<open>U&\<close>, \<open>const U&\<close>, \<open>U&&\<close>.
  (\<open>volatile\<close> is handled by \<open>std::remove_cv_t\<close> exactly as \<open>const\<close> is and is left out.)
\<close>

datatype ref_kind = NoRef | LvalueRef | RvalueRef

datatype cpp_type = CppType (base: type_info) (is_const: bool) (ref: ref_kind)

definition plain :: "type_info \<Rightarrow> cpp_type" where
  "plain U = CppType U False NoRef"

definition remove_reference_t :: "cpp_type \<Rightarrow> cpp_type" where
  "remove_reference_t T = CppType (base T) (is_const T) NoRef"

text \<open>A reference type has no top-level cv-qualifier: \<open>remove_cv_t<const U&>\<close> is \<open>const U&\<close>.\<close>

definition remove_cv_t :: "cpp_type \<Rightarrow> cpp_type" where
  "remove_cv_t T = (if ref T = NoRef then CppType (base T) False NoRef else T)"

text \<open>\<open>const T\<close> for a template argument \<open>T\<close>; on a reference type the qualifier is ignored.\<close>

definition add_const :: "cpp_type \<Rightarrow> cpp_type" where
  "add_const T = (if ref T = NoRef then CppType (base T) True NoRef else T)"

text \<open>\<open>T&&\<close> with reference collapsing: \<open>U& &&\<close> is \<open>U&\<close>, \<open>U&& &&\<close> is \<open>U&&\<close>.\<close>

definition add_rvalue_reference :: "cpp_type \<Rightarrow> cpp_type" where
  "add_rvalue_reference T = (if ref T = NoRef then CppType (base T) (is_const T) RvalueRef else T)"

definition is_rvalue_reference :: "cpp_type \<Rightarrow> bool" where
  "is_rvalue_reference T = (ref T = RvalueRef)"

text \<open>\<open>typeid(T)\<close> ignores references and top-level cv-qualifiers.\<close>

definition typeid :: "cpp_type \<Rightarrow> type_info" where
  "typeid T = base T"

text \<open>
  The argument expression of a forwarding reference \<open>_T&&\<close>: an lvalue of type \<open>U\<close>
  deduces \<open>_T = U&\<close>, an rvalue deduces \<open>_T = U\<close>.
\<close>

datatype value_category = Lvalue | Rvalue

definition deduce :: "value_category \<Rightarrow> cpp_type \<Rightarrow> cpp_type" where
  "deduce cat U = (case cat of Lvalue \<Rightarrow> CppType (base U) (is_const U) LvalueRef | Rvalue \<Rightarrow> U)"

type_synonym byte = "8 word"

text \<open>\<open>std::aligned_storage_t<_N>\<close>: a raw buffer, taken to be exactly \<open>_N\<close> bytes.\<close>

type_synonym storage_t = "byte list"

text \<open>\<open>bad_any_cast\<close>, with the message its constructor builds.\<close>

record bad_any_cast =
  from_type :: type_info
  to_type :: type_info
  reason :: string

definition bad_any_cast_ctor :: "type_info \<Rightarrow> type_info \<Rightarrow> bad_any_cast" where
  "bad_any_cast_ctor src tgt =
     \<lparr>from_type = src, to_type = tgt,
      reason = ''failed conversion using any_cast: stored type '' @ src
                @ '', trying to cast to '' @ tgt\<rparr>"

definition stored_type :: "bad_any_cast \<Rightarrow> type_info" where
  "stored_type ex = from_type ex"

definition target_type :: "bad_any_cast \<Rightarrow> type_info" where
  "target_type ex = to_type ex"

text \<open>What a call can throw: whatever a payload constructor throws, or \<open>bad_any_cast\<close>.\<close>

datatype exn = Thrown int | Bad_any_cast bad_any_cast

section \<open>Payload classes\<close>

text \<open>
  A payload type as the container sees it: its size, the two \<open>noexcept\<close> traits, and its
  copy constructor, move constructor and destructor. An object is its object representation;
  the constructors and the destructor run in a world \<open>'w\<close> (everything outside the buffers:
  static counters, the heap) which they may change. A constructor either throws or yields
  the new object; the move constructor also yields what it leaves in its source.
  \<open>move_ctor\<close> is the constructor that \<open>T(std::move(x))\<close> selects: the copy constructor,
  for a class that declares no move constructor.
\<close>

record 'w cpp_class =
  sizeof :: nat
  nothrow_copy :: bool
  nothrow_move :: bool
  copy_ctor :: "byte list \<Rightarrow> 'w \<Rightarrow> (exn + byte list) \<times> 'w"
  move_ctor :: "byte list \<Rightarrow> 'w \<Rightarrow> (exn + byte list \<times> byte list) \<times> 'w"
  dtor :: "byte list \<Rightarrow> 'w \<Rightarrow> 'w"

text \<open>The classes of the program, by name.\<close>

type_synonym 'w program = "type_info \<Rightarrow> 'w cpp_class"

text \<open>
  \<open>std::is_nothrow_copy_constructible<T>\<close> is \<open>is_nothrow_constructible<T, const T&>\<close>.
  For an lvalue reference \<open>T = U&\<close> the argument type \<open>const T&\<close> collapses to \<open>U&\<close> and
  binding a reference cannot throw; an rvalue reference cannot bind to that lvalue.
  \<open>std::is_nothrow_move_constructible<T>\<close> is \<open>is_nothrow_constructible<T, T&&>\<close>: for
  either kind of reference \<open>T&&\<close> collapses to \<open>T\<close> itself, and a \<open>const U&&\<close> argument
  selects the copy constructor of \<open>U\<close>.
\<close>

definition is_nothrow_copy_constructible :: "'w program \<Rightarrow> cpp_type \<Rightarrow> bool" where
  "is_nothrow_copy_constructible P T =
     (case ref T of
        NoRef \<Rightarrow> nothrow_copy (P (base T))
      | LvalueRef \<Rightarrow> True
      | RvalueRef \<Rightarrow> False)"

definition is_nothrow_move_constructible :: "'w program \<Rightarrow> cpp_type \<Rightarrow> bool" where
  "is_nothrow_move_constructible P T =
     (case ref T of
        NoRef \<Rightarrow> (if is_const T then nothrow_copy (P (base T)) else nothrow_move (P (base T)))
      | LvalueRef \<Rightarrow> True
      | RvalueRef \<Rightarrow> True)"

section \<open>The operation dispatcher\<close>

datatype operation_t = Query_type | Query_size | Query_noexcept | Copy | Move | Destroy

text \<open>
  \<open>function_ptr_t\<close>: the address of an instantiation \<open>detail::static_any::operation<X>\<close>.
  The function template is \<open>static\<close>, so every binary has instantiations of its own, and
  it has one for each template argument \<open>X\<close>: \<open>operation<const U>\<close>, \<open>operation<U&>\<close>
  and \<open>operation<U>\<close> are three functions. The address is the pair of the binary and
  \<open>X\<close>.
\<close>

datatype function_ptr = Instance (fn_binary: nat) (fn_arg: cpp_type)

text \<open>The address of \<open>operation<U>\<close>, the instantiation for the type \<open>U\<close> itself.\<close>

definition Operation :: "nat \<Rightarrow> type_info \<Rightarrow> function_ptr" where
  "Operation m U = Instance m (plain U)"

text \<open>
  The class whose objects \<open>operation<X>\<close> constructs and destroys, and of which it
  reports \<open>typeid(X)\<close>.
\<close>

definition fn_type :: "function_ptr \<Rightarrow> type_info" where
  "fn_type f = typeid (fn_arg f)"

definition get_function_for_type :: "nat \<Rightarrow> cpp_type \<Rightarrow> function_ptr" where
  "get_function_for_type m T = Instance m (remove_cv_t (remove_reference_t T))"

text \<open>The object of class \<open>C\<close> at the start of a buffer, and placement of an object there.\<close>

definition object_at :: "'w cpp_class \<Rightarrow> storage_t \<Rightarrow> byte list" where
  "object_at C b = take (sizeof C) b"

definition place :: "byte list \<Rightarrow> storage_t \<Rightarrow> storage_t" where
  "place obj b = obj @ drop (length obj) b"

text \<open>
  In the three query cases of \<open>operation<_T>\<close>, \<open>ptr1\<close> points to a local variable of
  the caller, not to a buffer; the case stores a value there and touches nothing else.
  What each stores:
\<close>

definition operation_query_type :: "cpp_type \<Rightarrow> type_info" where
  "operation_query_type X = typeid X"

definition operation_query_size :: "'w cpp_class \<Rightarrow> nat" where
  "operation_query_size C = sizeof C"

definition operation_query_noexcept :: "'w cpp_class \<Rightarrow> bool" where
  "operation_query_noexcept C = (nothrow_copy C \<or> nothrow_move C)"

text \<open>
  \<open>operation<_T>\<close> on the buffers \<open>ptr1\<close> and \<open>ptr2\<close> and the world: the result is the
  exception thrown, or the two buffers afterwards. The query cases change neither. A
  constructor that throws leaves both buffers as they were; the destructor leaves the bytes
  in place.
\<close>

fun operation :: "'w cpp_class \<Rightarrow> operation_t \<Rightarrow> storage_t \<Rightarrow> storage_t \<Rightarrow> 'w
    \<Rightarrow> (exn + storage_t \<times> storage_t) \<times> 'w" where
  "operation C Query_type ptr1 ptr2 w = (Inr (ptr1, ptr2), w)"
| "operation C Query_size ptr1 ptr2 w = (Inr (ptr1, ptr2), w)"
| "operation C Query_noexcept ptr1 ptr2 w = (Inr (ptr1, ptr2), w)"
| "operation C Copy ptr1 ptr2 w =
     (case copy_ctor C (object_at C ptr2) w of
        (Inl e, w') \<Rightarrow> (Inl e, w')
      | (Inr obj, w') \<Rightarrow> (Inr (place obj ptr1, ptr2), w'))"
| "operation C Move ptr1 ptr2 w =
     (case move_ctor C (object_at C ptr2) w of
        (Inl e, w') \<Rightarrow> (Inl e, w')
      | (Inr (obj, src), w') \<Rightarrow> (Inr (place obj ptr1, place src ptr2), w'))"
| "operation C Destroy ptr1 ptr2 w = (Inr (ptr1, ptr2), dtor C (object_at C ptr1) w)"

text \<open>A call through a function pointer runs the instantiation it points to.\<close>

definition invoke :: "'w program \<Rightarrow> function_ptr \<Rightarrow> operation_t \<Rightarrow> storage_t \<Rightarrow> storage_t \<Rightarrow> 'w
    \<Rightarrow> (exn + storage_t \<times> storage_t) \<times> 'w" where
  "invoke P f op ptr1 ptr2 w = operation (P (fn_type f)) op ptr1 ptr2 w"

section \<open>The general container\<close>

text \<open>
  \<open>static_any<_N>\<close>: the buffer \<open>buff_\<close> and the dispatcher \<open>function_\<close> (here \<open>buff\<close>
  and \<open>func\<close>); \<open>nullptr\<close> is \<open>None\<close>.
\<close>

record static_any =
  buff :: storage_t
  func :: "function_ptr option"

definition capacity :: "static_any \<Rightarrow> nat" where
  "capacity a = length (buff a)"

text \<open>
  \<open>static_any() = default\<close>: no dispatcher; the buffer holds whatever bytes \<open>init\<close> were
  there.
\<close>

definition static_any_default :: "storage_t \<Rightarrow> static_any" where
  "static_any_default init = \<lparr>buff = init, func = None\<rparr>"

definition empty_any :: "static_any \<Rightarrow> bool" where
  "empty_any a = (func a = None)"

text \<open>
  \<open>query_type\<close>, \<open>query_size\<close> and \<open>query_noexcept\<close> call \<open>function_\<close>, which every caller
  has tested to be non-null: they take the pointer.
\<close>

definition query_type :: "function_ptr \<Rightarrow> type_info" where
  "query_type f = operation_query_type (fn_arg f)"

definition query_size :: "'w program \<Rightarrow> function_ptr \<Rightarrow> nat" where
  "query_size P f = operation_query_size (P (fn_type f))"

definition query_noexcept :: "'w program \<Rightarrow> function_ptr \<Rightarrow> bool" where
  "query_noexcept P f = operation_query_noexcept (P (fn_type f))"

definition destroy :: "'w program \<Rightarrow> static_any \<Rightarrow> 'w \<Rightarrow> static_any \<times> 'w" where
  "destroy P a w =
     (case func a of
        None \<Rightarrow> (a, w)
      | Some f \<Rightarrow> (a\<lparr>func := None\<rparr>, snd (invoke P f Destroy (buff a) [] w)))"

definition reset :: "'w program \<Rightarrow> static_any \<Rightarrow> 'w \<Rightarrow> static_any \<times> 'w" where
  "reset P a w = destroy P a w"

text \<open>\<open>~static_any()\<close>: the container is gone afterwards; what remains is the world.\<close>

definition static_any_dtor :: "'w program \<Rightarrow> static_any \<Rightarrow> 'w \<Rightarrow> 'w" where
  "static_any_dtor P a w = snd (destroy P a w)"

text \<open>\<open>has<_T>()\<close>, as instantiated in binary \<open>m\<close>.\<close>

definition has :: "nat \<Rightarrow> cpp_type \<Rightarrow> static_any \<Rightarrow> bool" where
  "has m T a =
     (if func a = Some (get_function_for_type m T) then True
      else (case func a of
              Some f \<Rightarrow> typeid T = query_type f
            | None \<Rightarrow> False))"

definition type_any :: "static_any \<Rightarrow> type_info" where
  "type_any a = (case func a of None \<Rightarrow> typeid_void | Some f \<Rightarrow> query_type f)"

definition size_any :: "'w program \<Rightarrow> static_any \<Rightarrow> nat" where
  "size_any P a = (case func a of None \<Rightarrow> 0 | Some f \<Rightarrow> query_size P f)"

text \<open>The two overloads of \<open>call_copy_or_move<_RefT>\<close>.\<close>

definition call_copy_or_move :: "nat \<Rightarrow> 'w program \<Rightarrow> cpp_type \<Rightarrow> storage_t \<Rightarrow> storage_t \<Rightarrow> 'w
    \<Rightarrow> (exn + storage_t \<times> storage_t) \<times> 'w" where
  "call_copy_or_move m P RefT this_ptr other_ptr w =
     (if is_rvalue_reference RefT
      then invoke P (get_function_for_type m RefT) Move this_ptr other_ptr w
      else invoke P (get_function_for_type m RefT) Copy this_ptr other_ptr w)"

definition call_copy_or_move_fn :: "'w program \<Rightarrow> cpp_type \<Rightarrow> function_ptr \<Rightarrow> storage_t \<Rightarrow> storage_t
    \<Rightarrow> 'w \<Rightarrow> (exn + storage_t \<times> storage_t) \<times> 'w" where
  "call_copy_or_move_fn P RefT f this_ptr other_ptr w =
     (if is_rvalue_reference RefT
      then invoke P f Move this_ptr other_ptr w
      else invoke P f Copy this_ptr other_ptr w)"

text \<open>
  \<open>copy_or_move(_T&& t)\<close>, for the constructor from a value: \<open>t\<close> is the argument object.
  The \<open>static_assert\<close> (\<open>sizeof(_T)\<close> is at most the capacity) is checked by the compiler;
  \<open>function_\<close> is null on entry. The result is the exception, the container, the argument
  object and the world afterwards.
\<close>

definition copy_or_move :: "nat \<Rightarrow> 'w program \<Rightarrow> cpp_type \<Rightarrow> byte list \<Rightarrow> static_any \<Rightarrow> 'w
    \<Rightarrow> exn option \<times> static_any \<times> byte list \<times> 'w" where
  "copy_or_move m P T t a w =
     (case call_copy_or_move m P (add_rvalue_reference T) (buff a) t w of
        (Inl e, w') \<Rightarrow> (Some e, a, t, w')
      | (Inr (b, t'), w') \<Rightarrow>
          (None, a\<lparr>buff := b, func := Some (get_function_for_type m T)\<rparr>, t', w'))"

text \<open>\<open>static_any(_T&& v)\<close>.\<close>

definition static_any_from_value :: "nat \<Rightarrow> 'w program \<Rightarrow> value_category \<Rightarrow> cpp_type \<Rightarrow> byte list
    \<Rightarrow> storage_t \<Rightarrow> 'w \<Rightarrow> exn option \<times> static_any \<times> byte list \<times> 'w" where
  "static_any_from_value m P cat U v init w =
     copy_or_move m P (deduce cat U) v (static_any_default init) w"

text \<open>
  \<open>assign(_T&& t)\<close>, with \<open>t\<close> an object outside the container. \<open>old_buff\<close> and
  \<open>old_function\<close> are written and read only when \<open>cannot_throw\<close> is false.
\<close>

definition assign :: "nat \<Rightarrow> 'w program \<Rightarrow> cpp_type \<Rightarrow> byte list \<Rightarrow> static_any \<Rightarrow> 'w
    \<Rightarrow> exn option \<times> static_any \<times> byte list \<times> 'w" where
  "assign m P T t a w =
     (let cannot_throw =
            (if is_rvalue_reference T then is_nothrow_move_constructible P T
             else is_nothrow_copy_constructible P T);
          old_buff = buff a;
          old_function = func a;
          (a1, w1) = destroy P a w
      in case call_copy_or_move m P (add_rvalue_reference T) (buff a1) t w1 of
           (Inl e, w2) \<Rightarrow>
             (Some e,
              (if \<not> cannot_throw then a1\<lparr>buff := old_buff, func := old_function\<rparr> else a1),
              t, w2)
         | (Inr (b, t'), w2) \<Rightarrow>
             (None, a1\<lparr>buff := b, func := Some (get_function_for_type m T)\<rparr>, t', w2))"

text \<open>\<open>operator=(_T&& t)\<close>, the value-assignment operator.\<close>

definition assign_value :: "nat \<Rightarrow> 'w program \<Rightarrow> value_category \<Rightarrow> cpp_type \<Rightarrow> byte list
    \<Rightarrow> static_any \<Rightarrow> 'w \<Rightarrow> exn option \<times> static_any \<times> byte list \<times> 'w" where
  "assign_value m P cat U t a w = assign m P (deduce cat U) t a w"

text \<open>
  The type \<open>static_any<_M>\<close> of another container, as a template argument. The capacity
  \<open>_M\<close> is the length of that container's buffer.
\<close>

definition static_any_type :: cpp_type where
  "static_any_type = CppType ''static_any'' False NoRef"

text \<open>
  \<open>copy_or_move_from_another(static_any<_M>&& another)\<close>, the only overload. The result
  is the exception, this container, the other container and the world afterwards.
  \<open>_M <= _N\<close> is checked by the compiler; \<open>function_\<close> is null on entry.
\<close>

definition copy_or_move_from_another :: "'w program \<Rightarrow> static_any \<Rightarrow> static_any \<Rightarrow> 'w
    \<Rightarrow> exn option \<times> static_any \<times> static_any \<times> 'w" where
  "copy_or_move_from_another P another a w =
     (case func another of
        None \<Rightarrow> (None, a, another, w)
      | Some f \<Rightarrow>
          (case call_copy_or_move_fn P (add_rvalue_reference static_any_type) f
                  (buff a) (buff another) w of
             (Inl e, w') \<Rightarrow> (Some e, a, another, w')
           | (Inr (b, ob), w') \<Rightarrow>
               (None, a\<lparr>buff := b, func := func another\<rparr>, another\<lparr>buff := ob\<rparr>, w')))"

text \<open>
  The constructors from another container, \<open>static_any(static_any<_M>& another)\<close> and
  \<open>static_any(static_any<_M>&& another)\<close>: both pass
  \<open>std::forward<static_any<_M>>(another)\<close>, an rvalue, to \<open>copy_or_move_from_another\<close>.
  They are the constructors selected for a source that is not const.
  (\<open>static_any(const static_any<_M>&)\<close> names the same function, whose parameter does not
  bind a const lvalue; a const source of the same capacity selects the implicit copy
  constructor, below.)
\<close>

definition static_any_from_another :: "'w program \<Rightarrow> value_category \<Rightarrow> static_any \<Rightarrow> storage_t \<Rightarrow> 'w
    \<Rightarrow> exn option \<times> static_any \<times> static_any \<times> 'w" where
  "static_any_from_another P cat another init w =
     (case cat of
        Lvalue \<Rightarrow> copy_or_move_from_another P another (static_any_default init) w
      | Rvalue \<Rightarrow> copy_or_move_from_another P another (static_any_default init) w)"

text \<open>
  \<open>assign_from_another(_T&& another)\<close>, with \<open>_T\<close> the deduced type of the other
  container, which is a different object from this one. The query writes its answer to
  \<open>nothrow_copy\<close>; \<open>nothrow_move\<close> is never written or read.
\<close>

definition assign_from_another :: "'w program \<Rightarrow> cpp_type \<Rightarrow> static_any \<Rightarrow> static_any \<Rightarrow> 'w
    \<Rightarrow> exn option \<times> static_any \<times> static_any \<times> 'w" where
  "assign_from_another P T another a w =
     (case func another of
        None \<Rightarrow> (let (a', w') = destroy P a w in (None, a', another, w'))
      | Some f \<Rightarrow>
          (let nothrow_copy = query_noexcept P f;
               old_buff = buff a;
               old_function = (if \<not> nothrow_copy then func a else None);
               (a1, w1) = destroy P a w
           in case (if is_rvalue_reference (add_rvalue_reference T)
                    then invoke P f Move (buff a1) (buff another) w1
                    else invoke P f Copy (buff a1) (buff another) w1) of
                (Inl e, w2) \<Rightarrow>
                  (Some e,
                   (if \<not> nothrow_copy then a1\<lparr>buff := old_buff, func := old_function\<rparr> else a1),
                   another, w2)
              | (Inr (b, ob), w2) \<Rightarrow>
                  (None, a1\<lparr>buff := b, func := Some f\<rparr>, another\<lparr>buff := ob\<rparr>, w2)))"

text \<open>
  The assignment operator templates \<open>operator=(static_any<_M>& another)\<close>, which passes
  the lvalue on, and \<open>operator=(static_any<_M>&& another)\<close>, which passes
  \<open>std::forward<static_any<_M>>(another)\<close>: the operators that \<open>dst = src\<close> selects for
  a source that is not const, an lvalue or an rvalue.
\<close>

definition assign_another :: "'w program \<Rightarrow> value_category \<Rightarrow> static_any \<Rightarrow> static_any \<Rightarrow> 'w
    \<Rightarrow> exn option \<times> static_any \<times> static_any \<times> 'w" where
  "assign_another P cat another a w =
     assign_from_another P (deduce cat static_any_type) another a w"

text \<open>
  The class declares no copy constructor and no copy assignment operator (a template is
  never one), so the compiler declares both, and they copy the two members: the bytes of
  \<open>buff_\<close> and the pointer \<open>function_\<close>. Neither calls \<open>destroy\<close> or the dispatcher.
\<close>

definition implicit_copy_ctor :: "static_any \<Rightarrow> static_any" where
  "implicit_copy_ctor another = \<lparr>buff = buff another, func = func another\<rparr>"

definition implicit_copy_assignment :: "static_any \<Rightarrow> static_any \<Rightarrow> static_any" where
  "implicit_copy_assignment another a = a\<lparr>buff := buff another, func := func another\<rparr>"

text \<open>
  \<open>dst = src\<close> for an lvalue \<open>src\<close>, const (\<open>c\<close>) or not. A source that is not const
  selects \<open>operator=(static_any<_M>&)\<close>. A const source of the same capacity has the
  parameter type \<open>const static_any<_N>&\<close> in the implicit copy assignment operator and in
  the templates alike, and the function that is not a template is preferred. A const
  source of another capacity selects \<open>operator=(const static_any<_M>&)\<close>, which passes
  the lvalue on to \<open>assign_from_another\<close>.
\<close>

definition copy_assign :: "'w program \<Rightarrow> bool \<Rightarrow> static_any \<Rightarrow> static_any \<Rightarrow> 'w
    \<Rightarrow> exn option \<times> static_any \<times> static_any \<times> 'w" where
  "copy_assign P c another a w =
     (if c \<and> capacity another = capacity a
      then (None, implicit_copy_assignment another a, another, w)
      else assign_from_another P (deduce Lvalue (CppType ''static_any'' c NoRef)) another a w)"

text \<open>
  \<open>emplace<_T>(args...)\<close>: \<open>ctor\<close> is \<open>_T(args...)\<close>, which throws or yields the new
  object. The local \<open>old\<close> starts empty (its buffer is never read before it is written)
  and is destroyed when \<open>emplace\<close> is left, normally or by an exception. An exception
  from \<open>old = std::move(*this)\<close> is outside the \<open>try\<close> block; one from
  \<open>*this = std::move(old)\<close> leaves the handler in place of the one caught.
\<close>

definition emplace :: "nat \<Rightarrow> 'w program \<Rightarrow> cpp_type \<Rightarrow> ('w \<Rightarrow> (exn + byte list) \<times> 'w) \<Rightarrow> static_any
    \<Rightarrow> 'w \<Rightarrow> exn option \<times> static_any \<times> 'w" where
  "emplace m P T ctor a w =
     (let old0 = static_any_default (replicate (capacity a) 0) in
      case (if \<not> empty_any a \<and> (case func a of None \<Rightarrow> False | Some f \<Rightarrow> query_noexcept P f)
            then assign_another P Rvalue a old0 w
            else (None, old0, a, w)) of
        (Some e, old, a1, w1) \<Rightarrow> (Some e, a1, static_any_dtor P old w1)
      | (None, old, a1, w1) \<Rightarrow>
          (let (a2, w2) = destroy P a1 w1 in
           case ctor w2 of
             (Inl e, w3) \<Rightarrow>
               (if \<not> empty_any old
                then (case assign_another P Rvalue old a2 w3 of
                        (Some e', a3, old3, w4) \<Rightarrow> (Some e', a3, static_any_dtor P old3 w4)
                      | (None, a3, old3, w4) \<Rightarrow> (Some e, a3, static_any_dtor P old3 w4))
                else (Some e, a2, static_any_dtor P old w3))
           | (Inr obj, w3) \<Rightarrow>
               (None, a2\<lparr>buff := place obj (buff a2), func := Some (get_function_for_type m T)\<rparr>,
                static_any_dtor P old w3)))"

text \<open>\<open>as<_T>()\<close>: the buffer read as a \<open>_T\<close>.\<close>

definition as_any :: "'w program \<Rightarrow> cpp_type \<Rightarrow> static_any \<Rightarrow> byte list" where
  "as_any P T a = object_at (P (base T)) (buff a)"

section \<open>Casts\<close>

text \<open>\<open>any_cast<_ValueT>(static_any<_S>* a)\<close>; \<open>None\<close> is the null pointer.\<close>

definition any_cast_ptr :: "nat \<Rightarrow> 'w program \<Rightarrow> cpp_type \<Rightarrow> static_any \<Rightarrow> byte list option" where
  "any_cast_ptr m P T a = (if \<not> has m T a then None else Some (as_any P T a))"

definition any_cast_const_ptr :: "nat \<Rightarrow> 'w program \<Rightarrow> cpp_type \<Rightarrow> static_any \<Rightarrow> byte list option" where
  "any_cast_const_ptr m P T a = any_cast_ptr m P (add_const T) a"

text \<open>\<open>any_cast<_ValueT>(static_any<_S>& a)\<close>.\<close>

definition any_cast :: "nat \<Rightarrow> 'w program \<Rightarrow> cpp_type \<Rightarrow> static_any \<Rightarrow> exn + byte list" where
  "any_cast m P T a =
     (if \<not> has m T a then Inl (Bad_any_cast (bad_any_cast_ctor (type_any a) (typeid T)))
      else Inr (as_any P T a))"

definition any_cast_const :: "nat \<Rightarrow> 'w program \<Rightarrow> cpp_type \<Rightarrow> static_any \<Rightarrow> exn + byte list" where
  "any_cast_const m P T a = any_cast m P (add_const T) a"

text \<open>\<open>get<_T>()\<close> and \<open>get<_T>() const\<close>.\<close>

definition get_any :: "nat \<Rightarrow> 'w program \<Rightarrow> cpp_type \<Rightarrow> static_any \<Rightarrow> exn + byte list" where
  "get_any m P T a = any_cast m P T a"

definition get_any_const :: "nat \<Rightarrow> 'w program \<Rightarrow> cpp_type \<Rightarrow> static_any \<Rightarrow> exn + byte list" where
  "get_any_const m P T a = any_cast_const m P T a"

section \<open>The trivial container\<close>

text \<open>\<open>static_any_t<_N>\<close>: the buffer alone.\<close>

record static_any_t =
  tbuff :: storage_t

definition capacity_t :: "static_any_t \<Rightarrow> nat" where
  "capacity_t a = length (tbuff a)"

text \<open>
  \<open>copy(_ValueT&& t)\<close>: \<open>t\<close> is the object representation of the argument, so
  \<open>sizeof(_ValueT)\<close> is its length. The two \<open>static_assert\<close>s (trivially copyable, and no
  larger than the capacity) are checked by the compiler.
\<close>

definition copy_t :: "byte list \<Rightarrow> static_any_t \<Rightarrow> static_any_t" where
  "copy_t t a = a\<lparr>tbuff := take (length t) t @ drop (length t) (tbuff a)\<rparr>"

text \<open>\<open>static_any_t(_ValueT&& t)\<close> and \<open>operator=(_ValueT&& t)\<close>.\<close>

definition static_any_t_from_value :: "byte list \<Rightarrow> storage_t \<Rightarrow> static_any_t" where
  "static_any_t_from_value t init = copy_t t \<lparr>tbuff = init\<rparr>"

definition assign_t :: "byte list \<Rightarrow> static_any_t \<Rightarrow> static_any_t" where
  "assign_t t a = copy_t t a"

text \<open>\<open>get<_ValueT>()\<close>, for a \<open>_ValueT\<close> of \<open>n\<close> bytes: the start of the buffer read as one.\<close>

definition get_t :: "nat \<Rightarrow> static_any_t \<Rightarrow> byte list" where
  "get_t n a = take n (tbuff a)"

text \<open>\<open>static_any_t(const static_any_t&) = default\<close>: the member is copied.\<close>

definition static_any_t_copy_ctor :: "static_any_t \<Rightarrow> static_any_t" where
  "static_any_t_copy_ctor other = \<lparr>tbuff = tbuff other\<rparr>"

text \<open>
  A container given to the templates \<open>static_any_t(_ValueT&&)\<close> and
  \<open>operator=(_ValueT&&)\<close> is a value like any other: its object representation is its
  buffer.
\<close>

definition static_any_t_from_another :: "static_any_t \<Rightarrow> storage_t \<Rightarrow> static_any_t" where
  "static_any_t_from_another other init = static_any_t_from_value (tbuff other) init"

definition assign_t_another :: "static_any_t \<Rightarrow> static_any_t \<Rightarrow> static_any_t" where
  "assign_t_another other a = assign_t (tbuff other) a"

section \<open>The classes of the tests\<close>

text \<open>The static counters of \<open>CallCounter\<close> are the world of the test programs.\<close>

record counters =
  default_constructions :: int
  copy_constructions :: int
  move_constructions :: int
  destructions :: int

definition reset_counters :: counters where
  "reset_counters = \<lparr>default_constructions = 0, copy_constructions = 0,
                      move_constructions = 0, destructions = 0\<rparr>"

text \<open>\<open>int\<close>, or any scalar of four bytes: copies and moves are the bytes.\<close>

definition int_class :: "counters cpp_class" where
  "int_class = \<lparr>sizeof = 4, nothrow_copy = True, nothrow_move = True,
                 copy_ctor = (\<lambda>x w. (Inr x, w)),
                 move_ctor = (\<lambda>x w. (Inr (x, x), w)),
                 dtor = (\<lambda>x w. w)\<rparr>"

text \<open>\<open>struct CallCounter\<close>: every special member counts its calls; none is \<open>noexcept\<close>.\<close>

definition CallCounter_class :: "counters cpp_class" where
  "CallCounter_class = \<lparr>sizeof = 1, nothrow_copy = False, nothrow_move = False,
     copy_ctor = (\<lambda>x w. (Inr x, w\<lparr>copy_constructions := copy_constructions w + 1\<rparr>)),
     move_ctor = (\<lambda>x w. (Inr (x, x), w\<lparr>move_constructions := move_constructions w + 1\<rparr>)),
     dtor = (\<lambda>x w. w\<lparr>destructions := destructions w + 1\<rparr>)\<rparr>"

text \<open>
  \<open>struct unsafe_to_copy\<close>: the copy constructor throws 123. There is no move constructor,
  so an rvalue is copied too.
\<close>

definition unsafe_to_copy_class :: "counters cpp_class" where
  "unsafe_to_copy_class = \<lparr>sizeof = 1, nothrow_copy = False, nothrow_move = False,
     copy_ctor = (\<lambda>x w. (Inl (Thrown 123), w)),
     move_ctor = (\<lambda>x w. (Inl (Thrown 123), w)),
     dtor = (\<lambda>x w. w)\<rparr>"

text \<open>
  A class in the manner of \<open>CallCounter\<close> whose copy constructor is \<open>noexcept\<close> and whose
  move constructor, not \<open>noexcept\<close>, throws 7 from its second call on.
\<close>

definition MoveOnce_class :: "counters cpp_class" where
  "MoveOnce_class = \<lparr>sizeof = 1, nothrow_copy = True, nothrow_move = False,
     copy_ctor = (\<lambda>x w. (Inr x, w\<lparr>copy_constructions := copy_constructions w + 1\<rparr>)),
     move_ctor = (\<lambda>x w. if move_constructions w = 0
                          then (Inr (x, x), w\<lparr>move_constructions := 1\<rparr>)
                          else (Inl (Thrown 7), w)),
     dtor = (\<lambda>x w. w\<lparr>destructions := destructions w + 1\<rparr>)\<rparr>"

text \<open>
  \<open>struct unsafe_to_construct\<close>: an empty class with the implicit copy and move
  constructors; its default constructor throws 123.
\<close>

definition unsafe_to_construct_class :: "counters cpp_class" where
  "unsafe_to_construct_class = \<lparr>sizeof = 1, nothrow_copy = True, nothrow_move = True,
     copy_ctor = (\<lambda>x w. (Inr x, w)),
     move_ctor = (\<lambda>x w. (Inr (x, x), w)),
     dtor = (\<lambda>x w. w)\<rparr>"

definition unsafe_to_construct_ctor :: "counters \<Rightarrow> (exn + byte list) \<times> counters" where
  "unsafe_to_construct_ctor w = (Inl (Thrown 123), w)"

text \<open>The program of the tests; every other type name stands for a four-byte scalar.\<close>

definition test_program :: "counters program" where
  "test_program U =
     (if U = ''CallCounter'' then CallCounter_class
      else if U = ''unsafe_to_copy'' then unsafe_to_copy_class
      else if U = ''unsafe_to_construct'' then unsafe_to_construct_class
      else if U = ''MoveOnce'' then MoveOnce_class
      else int_class)"

text \<open>The \<open>int\<close>s 1 and 1234, and sixteen and thirty-two bytes of fresh storage.\<close>

definition int_1 :: "byte list" where
  "int_1 = [1, 0, 0, 0]"

definition int_1234 :: "byte list" where
  "int_1234 = [210, 4, 0, 0]"

definition storage16 :: storage_t where
  "storage16 = replicate 16 0"

definition storage32 :: storage_t where
  "storage32 = replicate 32 0"

text \<open>\<open>static_any<16> a(1234)\<close> and \<open>static_any<16> a(1)\<close>, built in binary 0.\<close>

definition any16_1234 :: static_any where
  "any16_1234 = \<lparr>buff = int_1234 @ replicate 12 0, func = Some (Operation 0 ''int'')\<rparr>"

definition any16_1 :: static_any where
  "any16_1 = \<lparr>buff = int_1 @ replicate 12 0, func = Some (Operation 0 ''int'')\<rparr>"

text \<open>A \<open>static_any<16>\<close> holding a \<open>CallCounter\<close>, and one holding a \<open>MoveOnce\<close>.\<close>

definition any16_CallCounter :: static_any where
  "any16_CallCounter = \<lparr>buff = storage16, func = Some (Operation 0 ''CallCounter'')\<rparr>"

definition any16_MoveOnce :: static_any where
  "any16_MoveOnce = \<lparr>buff = storage16, func = Some (Operation 0 ''MoveOnce'')\<rparr>"

text \<open>\<open>get_any_with_int(7)\<close>: a \<open>static_any<16>\<close> holding the \<open>int\<close> 7, built in binary 1.\<close>

definition any_with_int_7 :: static_any where
  "any_with_int_7 = \<lparr>buff = [7, 0, 0, 0] @ replicate 12 0, func = Some (Operation 1 ''int'')\<rparr>"

text \<open>\<open>static_any<32> b(2)\<close>, built in binary 0.\<close>

definition any32_2 :: static_any where
  "any32_2 = \<lparr>buff = [2, 0, 0, 0] @ replicate 28 0, func = Some (Operation 0 ''int'')\<rparr>"

text \<open>
  The parts of the result of an operation on this container and another object: the
  exception thrown if any, this container and the other object afterwards.
\<close>

definition thrown :: "exn option \<times> 'a \<times> 'b \<times> 'w \<Rightarrow> exn option" where
  "thrown r = fst r"

definition this_after :: "exn option \<times> 'a \<times> 'b \<times> 'w \<Rightarrow> 'a" where
  "this_after r = fst (snd r)"

definition other_after :: "exn option \<times> 'a \<times> 'b \<times> 'w \<Rightarrow> 'b" where
  "other_after r = fst (snd (snd r))"

section \<open>Basic facts\<close>

lemma fn_type_Operation [simp]: "fn_type (Operation m U) = U"
  by (simp add: fn_type_def Operation_def plain_def typeid_def)

lemma Operation_eq [simp]: "Operation m U = Operation m' U' \<longleftrightarrow> m = m' \<and> U = U'"
  by (simp add: Operation_def plain_def)

text \<open>
  Removing the reference and then the qualifier leaves the type itself; in the other
  order the qualifier of \<open>const U&\<close>, which is not at the top level, would stay.
\<close>

lemma remove_cv_remove_reference:
  "remove_cv_t (remove_reference_t (CppType U c r)) = plain U"
  by (simp add: remove_cv_t_def remove_reference_t_def plain_def)

lemma get_function_for_type_base:
  "get_function_for_type m T = Operation m (base T)"
  by (cases T) (simp add: get_function_for_type_def remove_cv_remove_reference Operation_def)

lemma query_type_fn_type: "query_type f = fn_type f"
  by (simp add: query_type_def operation_query_type_def fn_type_def)

lemma has_iff: "has m T a \<longleftrightarrow> (\<exists>f. func a = Some f \<and> fn_type f = base T)"
  by (cases "func a")
     (auto simp: has_def get_function_for_type_base query_type_fn_type typeid_def)

lemma base_add_const: "base (add_const T) = base T"
  by (simp add: add_const_def)

lemma has_add_const: "has m (add_const T) a = has m T a"
  by (simp add: has_iff base_add_const)

lemma type_any_eq: "type_any a = (case func a of None \<Rightarrow> typeid_void | Some f \<Rightarrow> fn_type f)"
  by (cases "func a") (simp_all add: type_any_def query_type_fn_type)

lemma base_deduce: "base (deduce cat U) = base U"
  by (cases cat) (simp_all add: deduce_def)

lemma copy_or_move_binds:
  "copy_or_move m P T t a w = (None, a', t', w') \<Longrightarrow> func a' = Some (Operation m (base T))"
  by (auto simp: copy_or_move_def get_function_for_type_base split: prod.splits sum.splits)

lemma assign_binds:
  "assign m P T t a w = (None, a', t', w') \<Longrightarrow> func a' = Some (Operation m (base T))"
  by (auto simp: assign_def Let_def get_function_for_type_base split: prod.splits sum.splits)

lemma destroy_this: "fst (destroy P a w) = a\<lparr>func := None\<rparr>"
  by (cases "func a") (simp_all add: destroy_def)

lemma destroy_empty: "func a = None \<Longrightarrow> destroy P a w = (a, w)"
  by (simp add: destroy_def)

lemma destroy_bound:
  "func a = Some f \<Longrightarrow>
     destroy P a w
       = (a\<lparr>func := None\<rparr>, dtor (P (fn_type f)) (object_at (P (fn_type f)) (buff a)) w)"
  by (simp add: destroy_def invoke_def)

lemma object_at_place:
  "length obj = sizeof C \<Longrightarrow> object_at C (place obj b) = obj"
  by (simp add: object_at_def place_def)

lemma length_place: "length obj \<le> length b \<Longrightarrow> length (place obj b) = length b"
  by (simp add: place_def)

lemma type_any_func: "func a = func b \<Longrightarrow> type_any a = type_any b"
  by (simp add: type_any_def)

lemma deduce_static_any_Lvalue:
  "is_rvalue_reference (add_rvalue_reference (deduce Lvalue static_any_type)) = False"
  by (simp add: deduce_def static_any_type_def add_rvalue_reference_def is_rvalue_reference_def)

lemma deduce_static_any_Rvalue:
  "is_rvalue_reference (add_rvalue_reference (deduce Rvalue static_any_type)) = True"
  by (simp add: deduce_def static_any_type_def add_rvalue_reference_def is_rvalue_reference_def)

lemma replicate_cons_numeral [simp]:
  "x # replicate 15 x = replicate 16 x" "x # replicate 31 x = replicate 32 x"
  by (simp_all add: eval_nat_numeral)

text \<open>The definitions that a run on concrete containers unfolds.\<close>

lemmas cpp_defs = deduce_def plain_def add_rvalue_reference_def is_rvalue_reference_def
  is_nothrow_copy_constructible_def is_nothrow_move_constructible_def
  remove_cv_t_def remove_reference_t_def get_function_for_type_def Operation_def fn_type_def
  typeid_def

lemmas run_defs = assign_value_def assign_def copy_or_move_def
  call_copy_or_move_def call_copy_or_move_fn_def invoke_def destroy_def object_at_def place_def
  static_any_default_def static_any_dtor_def static_any_from_another_def
  copy_or_move_from_another_def assign_another_def assign_from_another_def
  query_noexcept_def operation_query_noexcept_def static_any_type_def empty_any_def

lemmas test_defs = test_program_def int_class_def CallCounter_class_def unsafe_to_copy_class_def
  unsafe_to_construct_class_def MoveOnce_class_def reset_counters_def
  any16_1234_def any16_1_def any16_CallCounter_def any32_2_def
  int_1_def int_1234_def storage16_def storage32_def

section \<open>Assignment and construction from another container\<close>

lemma assign_another_empty:
  "func src = None \<Longrightarrow>
     assign_another P cat src dst w = (None, dst\<lparr>func := None\<rparr>, src, snd (destroy P dst w))"
  by (simp add: assign_another_def assign_from_another_def case_prod_beta destroy_this)

lemma from_another_empty:
  "func src = None \<Longrightarrow>
     static_any_from_another P cat src init w = (None, static_any_default init, src, w)"
  by (cases cat) (simp_all add: static_any_from_another_def copy_or_move_from_another_def)

lemma assign_another_copy_ok:
  assumes "func src = Some f"
    and "copy_ctor (P (fn_type f)) (object_at (P (fn_type f)) (buff src)) (snd (destroy P dst w))
           = (Inr v', w')"
  shows "assign_another P Lvalue src dst w
           = (None, dst\<lparr>buff := place v' (buff dst), func := Some f\<rparr>, src, w')"
  using assms
  by (simp add: assign_another_def assign_from_another_def deduce_static_any_Lvalue Let_def
      invoke_def case_prod_beta destroy_this)

lemma assign_another_move_ok:
  assumes "func src = Some f"
    and "move_ctor (P (fn_type f)) (object_at (P (fn_type f)) (buff src)) (snd (destroy P dst w))
           = (Inr (obj, left), w')"
  shows "assign_another P Rvalue src dst w
           = (None, dst\<lparr>buff := place obj (buff dst), func := Some f\<rparr>,
              src\<lparr>buff := place left (buff src)\<rparr>, w')"
  using assms
  by (simp add: assign_another_def assign_from_another_def deduce_static_any_Rvalue Let_def
      invoke_def case_prod_beta destroy_this)

lemma assign_another_copy_other:
  "other_after (assign_another P Lvalue src dst w) = src"
  by (cases "func src")
     (auto simp: assign_another_def assign_from_another_def deduce_static_any_Lvalue Let_def
        invoke_def case_prod_beta other_after_def split: sum.splits)

lemma assign_another_other_func:
  "func (other_after (assign_another P cat src dst w)) = func src"
  by (cases "func src"; cases cat)
     (auto simp: assign_another_def assign_from_another_def deduce_static_any_Lvalue
        deduce_static_any_Rvalue Let_def invoke_def case_prod_beta other_after_def
        split: sum.splits)

lemma from_another_move_ok:
  assumes "func src = Some f"
    and "move_ctor (P (fn_type f)) (object_at (P (fn_type f)) (buff src)) w = (Inr (obj, left), w')"
  shows "static_any_from_another P cat src init w
           = (None, \<lparr>buff = place obj init, func = Some f\<rparr>,
              src\<lparr>buff := place left (buff src)\<rparr>, w')"
  using assms
  by (cases cat)
     (simp_all add: static_any_from_another_def copy_or_move_from_another_def
        call_copy_or_move_fn_def static_any_type_def add_rvalue_reference_def
        is_rvalue_reference_def invoke_def static_any_default_def)

lemma from_another_other_func:
  "func (other_after (static_any_from_another P cat src init w)) = func src"
  by (cases "func src"; cases cat)
     (auto simp: static_any_from_another_def copy_or_move_from_another_def
        call_copy_or_move_fn_def static_any_type_def add_rvalue_reference_def
        is_rvalue_reference_def invoke_def other_after_def split: sum.splits prod.splits)

lemma copy_assign_not_const:
  "copy_assign P False another a w = assign_another P Lvalue another a w"
  by (simp add: copy_assign_def assign_another_def static_any_type_def)

lemma deduce_const_static_any_Lvalue:
  "is_rvalue_reference (add_rvalue_reference (deduce Lvalue (CppType ''static_any'' c NoRef)))
     = False"
  by (simp add: deduce_def add_rvalue_reference_def is_rvalue_reference_def)

lemma copy_assign_implicit:
  "c \<Longrightarrow> capacity src = capacity dst \<Longrightarrow>
     copy_assign P c src dst w = (None, dst\<lparr>buff := buff src, func := func src\<rparr>, src, w)"
  by (simp add: copy_assign_def implicit_copy_assignment_def)

lemma copy_assign_copy_ok:
  assumes "func src = Some f" and "\<not> (c \<and> capacity src = capacity dst)"
    and "copy_ctor (P (fn_type f)) (object_at (P (fn_type f)) (buff src)) (snd (destroy P dst w))
           = (Inr v', w')"
  shows "copy_assign P c src dst w
           = (None, dst\<lparr>buff := place v' (buff dst), func := Some f\<rparr>, src, w')"
proof -
  from assms(2) have "copy_assign P c src dst w
      = assign_from_another P (deduce Lvalue (CppType ''static_any'' c NoRef)) src dst w"
    by (auto simp: copy_assign_def)
  with assms(1,3) show ?thesis
    by (simp add: assign_from_another_def deduce_const_static_any_Lvalue Let_def
        invoke_def case_prod_beta destroy_this)
qed

text \<open>
  C6. Copy-assigning a source of capacity \<open>M\<close> to a destination of capacity \<open>N\<close>,
  \<open>M <= N\<close>, the source const or not. When the source is empty the destination is empty
  afterwards, by assignment and by construction alike, whatever it held. When the source
  holds a \<open>T\<close>: for a const source of the same capacity the members are copied, the
  assignment returns, \<open>has<T>()\<close> is true of the destination and \<open>get<T>()\<close> returns what
  it returns for the source. For every other source, when the \<open>T\<close> fits its buffer and
  \<open>T\<close>'s copy constructor returns the copy \<open>v'\<close>, the assignment returns, the source is
  as it was, the destination keeps its capacity, \<open>has<T>()\<close> is true of it and \<open>get<T>()\<close>
  returns \<open>v'\<close>: the source's value, when the copy is equal to the original.
\<close>

theorem copy_assign_from_another:
  "(func src = None \<longrightarrow>
       empty_any (this_after (copy_assign P c src dst w))
     \<and> empty_any (this_after (assign_another P cat src dst w))
     \<and> empty_any (this_after (static_any_from_another P cat src init w))
     \<and> empty_any (implicit_copy_ctor src))
   \<and> (func src = Some f \<and> c \<and> capacity src = capacity dst \<longrightarrow>
        (\<exists>dst'. copy_assign P c src dst w = (None, dst', src, w)
           \<and> has m (plain (fn_type f)) dst'
           \<and> get_any m P (plain (fn_type f)) dst' = Inr (as_any P (plain (fn_type f)) src)
           \<and> get_any m P (plain (fn_type f)) dst' = get_any m P (plain (fn_type f)) src
           \<and> capacity dst' = capacity dst))
   \<and> (func src = Some f \<and> \<not> (c \<and> capacity src = capacity dst)
        \<and> sizeof (P (fn_type f)) \<le> capacity src \<and> capacity src \<le> capacity dst
        \<and> copy_ctor (P (fn_type f)) (as_any P (plain (fn_type f)) src) (snd (destroy P dst w))
             = (Inr v', w')
        \<and> length v' = sizeof (P (fn_type f)) \<longrightarrow>
        (\<exists>dst'. copy_assign P c src dst w = (None, dst', src, w')
           \<and> has m (plain (fn_type f)) dst'
           \<and> get_any m P (plain (fn_type f)) dst' = Inr v'
           \<and> capacity dst' = capacity dst
           \<and> (v' = as_any P (plain (fn_type f)) src \<longrightarrow>
                get_any m P (plain (fn_type f)) dst' = get_any m P (plain (fn_type f)) src)))"
proof (intro conjI impI)
  assume e: "func src = None"
  show "empty_any (this_after (copy_assign P c src dst w))"
    using e
    by (simp add: copy_assign_def implicit_copy_assignment_def assign_from_another_def
        case_prod_beta destroy_this this_after_def empty_any_def)
  show "empty_any (this_after (assign_another P cat src dst w))"
    using e by (simp add: assign_another_empty this_after_def empty_any_def)
  show "empty_any (this_after (static_any_from_another P cat src init w))"
    using e by (simp add: from_another_empty this_after_def empty_any_def static_any_default_def)
  show "empty_any (implicit_copy_ctor src)"
    using e by (simp add: implicit_copy_ctor_def empty_any_def)
next
  let ?T = "plain (fn_type f)"
  assume h: "func src = Some f \<and> c \<and> capacity src = capacity dst"
  let ?res = "dst\<lparr>buff := buff src, func := func src\<rparr>"
  have eq: "copy_assign P c src dst w = (None, ?res, src, w)"
    using h by (simp add: copy_assign_implicit)
  have has_dst: "has m ?T ?res" and has_src: "has m ?T src"
    using h by (simp_all add: has_iff plain_def)
  have get_src: "get_any m P ?T src = Inr (as_any P ?T src)"
    using has_src by (simp add: get_any_def any_cast_def)
  have get_dst: "get_any m P ?T ?res = Inr (as_any P ?T src)"
    using has_dst by (simp add: get_any_def any_cast_def as_any_def)
  have cap: "capacity ?res = capacity dst"
    using h by (simp add: capacity_def)
  show "\<exists>dst'. copy_assign P c src dst w = (None, dst', src, w)
           \<and> has m ?T dst'
           \<and> get_any m P ?T dst' = Inr (as_any P ?T src)
           \<and> get_any m P ?T dst' = get_any m P ?T src
           \<and> capacity dst' = capacity dst"
    using eq has_dst get_dst get_src cap by (intro exI [of _ ?res]) simp
next
  let ?C = "P (fn_type f)"
  let ?T = "plain (fn_type f)"
  assume h: "func src = Some f \<and> \<not> (c \<and> capacity src = capacity dst)
        \<and> sizeof ?C \<le> capacity src \<and> capacity src \<le> capacity dst
        \<and> copy_ctor ?C (as_any P ?T src) (snd (destroy P dst w)) = (Inr v', w')
        \<and> length v' = sizeof ?C"
  let ?res = "dst\<lparr>buff := place v' (buff dst), func := Some f\<rparr>"
  have eq: "copy_assign P c src dst w = (None, ?res, src, w')"
    using h copy_assign_copy_ok [where src = src and f = f and c = c and dst = dst and P = P
        and w = w and v' = v' and w' = w']
    by (simp add: as_any_def plain_def)
  have has_dst: "has m ?T ?res"
    by (simp add: has_iff plain_def)
  have get_dst: "get_any m P ?T ?res = Inr v'"
    using h has_dst by (simp add: get_any_def any_cast_def as_any_def plain_def object_at_place)
  have cap: "capacity ?res = capacity dst"
    using h by (simp add: capacity_def length_place)
  have has_src: "has m ?T src"
    using h by (simp add: has_iff plain_def)
  have get_src: "get_any m P ?T src = Inr (as_any P ?T src)"
    using has_src by (simp add: get_any_def any_cast_def)
  show "\<exists>dst'. copy_assign P c src dst w = (None, dst', src, w')
           \<and> has m ?T dst'
           \<and> get_any m P ?T dst' = Inr v'
           \<and> capacity dst' = capacity dst
           \<and> (v' = as_any P ?T src \<longrightarrow> get_any m P ?T dst' = get_any m P ?T src)"
    using eq has_dst get_dst cap get_src by (intro exI [of _ ?res]) auto
qed

theorem copy_assign_from_another_witness:
  "func any16_1 = Some (Operation 0 ''int'')
   \<and> capacity any16_1 = capacity any16_CallCounter
   \<and> copy_assign test_program True any16_1 any16_CallCounter reset_counters
       = (None, any16_1, any16_1, reset_counters)
   \<and> has 1 (plain ''int'') any16_1
   \<and> get_any 1 test_program (plain ''int'') any16_1 = Inr int_1
   \<and> sizeof (test_program ''int'') \<le> capacity any16_1
   \<and> capacity any16_1 \<le> capacity any32_2
   \<and> copy_ctor (test_program ''int'') (as_any test_program (plain ''int'') any16_1)
         (snd (destroy test_program any32_2 reset_counters)) = (Inr int_1, reset_counters)
   \<and> length int_1 = sizeof (test_program ''int'')
   \<and> thrown (copy_assign test_program False any16_1 any32_2 reset_counters) = None
   \<and> has 1 (plain ''int'')
         (this_after (copy_assign test_program False any16_1 any32_2 reset_counters))
   \<and> get_any 1 test_program (plain ''int'')
         (this_after (copy_assign test_program False any16_1 any32_2 reset_counters)) = Inr int_1
   \<and> get_any 1 test_program (plain ''int'')
         (this_after (copy_assign test_program True any16_1 any32_2 reset_counters)) = Inr int_1
   \<and> other_after (copy_assign test_program False any16_1 any32_2 reset_counters) = any16_1"
proof -
  have s: "func any16_1 = Some (Operation 0 ''int'') \<and> True
      \<and> capacity any16_1 = capacity any16_CallCounter"
    by (simp add: test_defs capacity_def)
  have h: "func any16_1 = Some (Operation 0 ''int'')
     \<and> \<not> (c \<and> capacity any16_1 = capacity any32_2)
     \<and> sizeof (test_program (fn_type (Operation 0 ''int''))) \<le> capacity any16_1
     \<and> capacity any16_1 \<le> capacity any32_2
     \<and> copy_ctor (test_program (fn_type (Operation 0 ''int'')))
           (as_any test_program (plain (fn_type (Operation 0 ''int''))) any16_1)
           (snd (destroy test_program any32_2 reset_counters)) = (Inr int_1, reset_counters)
     \<and> length int_1 = sizeof (test_program (fn_type (Operation 0 ''int'')))" for c
    by (simp add: cpp_defs run_defs test_defs capacity_def as_any_def)
  from s copy_assign_from_another [where src = any16_1 and f = "Operation 0 ''int''"
      and P = test_program and dst = any16_CallCounter and w = reset_counters and c = True
      and m = 1 and cat = Lvalue and init = storage16 and v' = int_1 and w' = reset_counters]
  obtain same where same:
    "copy_assign test_program True any16_1 any16_CallCounter reset_counters
       = (None, same, any16_1, reset_counters)"
    "has 1 (plain ''int'') same"
    "get_any 1 test_program (plain (fn_type (Operation 0 ''int''))) same
       = Inr (as_any test_program (plain (fn_type (Operation 0 ''int''))) any16_1)"
    by auto
  have same_eq: "same = any16_1"
    using same(1) s
    by (simp add: copy_assign_def implicit_copy_assignment_def any16_1_def any16_CallCounter_def)
  have v: "as_any test_program (plain ''int'') any16_1 = int_1"
    by (simp add: cpp_defs run_defs test_defs as_any_def)
  from h [of False] copy_assign_from_another [where src = any16_1 and f = "Operation 0 ''int''"
      and P = test_program and dst = any32_2 and w = reset_counters and v' = int_1
      and w' = reset_counters and m = 1 and c = False and cat = Lvalue and init = storage32]
  obtain wide where wide:
    "copy_assign test_program False any16_1 any32_2 reset_counters
       = (None, wide, any16_1, reset_counters)"
    "has 1 (plain ''int'') wide" "get_any 1 test_program (plain ''int'') wide = Inr int_1"
    by auto
  from h [of True] copy_assign_from_another [where src = any16_1 and f = "Operation 0 ''int''"
      and P = test_program and dst = any32_2 and w = reset_counters and v' = int_1
      and w' = reset_counters and m = 1 and c = True and cat = Lvalue and init = storage32]
  obtain other where other:
    "copy_assign test_program True any16_1 any32_2 reset_counters
       = (None, other, any16_1, reset_counters)"
    "get_any 1 test_program (plain ''int'') other = Inr int_1"
    by auto
  show ?thesis
    using s h [of False] same same_eq v wide other
    by (simp add: thrown_def this_after_def other_after_def)
qed

text \<open>
  C3, as the code has it. A move does not empty its source: after a move construction or
  a move assignment from a container holding a \<open>T\<close> (here an \<open>int\<close>, from a
  \<open>static_any<16>\<close> into a \<open>static_any<32>\<close>), the source is not empty.
\<close>

theorem move_leaves_source_bound:
  "thrown (static_any_from_another test_program Rvalue any16_1 storage32 reset_counters) = None
   \<and> \<not> empty_any (other_after
         (static_any_from_another test_program Rvalue any16_1 storage32 reset_counters))
   \<and> thrown (assign_another test_program Rvalue any16_1 any32_2 reset_counters) = None
   \<and> \<not> empty_any (other_after
         (assign_another test_program Rvalue any16_1 any32_2 reset_counters))"
  by (simp add: cpp_defs run_defs test_defs thrown_def other_after_def)

text \<open>
  C3, amended. Copy-assigning from a non-empty source leaves the source exactly as it was.
  Move-constructing or move-assigning from it leaves it non-empty and reporting the same
  type, whether the move returns or throws; when the payload's move constructor returns,
  the destination holds the object it built and the source's buffer holds what it left
  behind.
\<close>

theorem source_after_copy_or_move:
  "func src = Some f \<longrightarrow>
     other_after (assign_another P Lvalue src dst w) = src
   \<and> func (other_after (assign_another P Rvalue src dst w)) = Some f
   \<and> func (other_after (static_any_from_another P Rvalue src init w)) = Some f
   \<and> \<not> empty_any (other_after (assign_another P Rvalue src dst w))
   \<and> \<not> empty_any (other_after (static_any_from_another P Rvalue src init w))
   \<and> type_any (other_after (assign_another P Rvalue src dst w)) = type_any src
   \<and> type_any (other_after (static_any_from_another P Rvalue src init w)) = type_any src
   \<and> (move_ctor (P (fn_type f)) (as_any P (plain (fn_type f)) src) (snd (destroy P dst w))
         = (Inr (obj, left), w') \<longrightarrow>
       assign_another P Rvalue src dst w
         = (None, dst\<lparr>buff := place obj (buff dst), func := Some f\<rparr>,
            src\<lparr>buff := place left (buff src)\<rparr>, w'))
   \<and> (move_ctor (P (fn_type f)) (as_any P (plain (fn_type f)) src) w = (Inr (obj, left), w') \<longrightarrow>
       static_any_from_another P Rvalue src init w
         = (None, \<lparr>buff = place obj init, func = Some f\<rparr>,
            src\<lparr>buff := place left (buff src)\<rparr>, w'))"
proof (intro impI conjI)
  assume f: "func src = Some f"
  show "other_after (assign_another P Lvalue src dst w) = src"
    by (rule assign_another_copy_other)
  show 1: "func (other_after (assign_another P Rvalue src dst w)) = Some f"
    using f by (simp add: assign_another_other_func)
  show 2: "func (other_after (static_any_from_another P Rvalue src init w)) = Some f"
    using f by (simp add: from_another_other_func)
  show "\<not> empty_any (other_after (assign_another P Rvalue src dst w))"
    using 1 by (simp add: empty_any_def)
  show "\<not> empty_any (other_after (static_any_from_another P Rvalue src init w))"
    using 2 by (simp add: empty_any_def)
  show "type_any (other_after (assign_another P Rvalue src dst w)) = type_any src"
    by (rule type_any_func) (simp add: assign_another_other_func)
  show "type_any (other_after (static_any_from_another P Rvalue src init w)) = type_any src"
    by (rule type_any_func) (simp add: from_another_other_func)
next
  assume "func src = Some f"
    and "move_ctor (P (fn_type f)) (as_any P (plain (fn_type f)) src) (snd (destroy P dst w))
         = (Inr (obj, left), w')"
  then show "assign_another P Rvalue src dst w
         = (None, dst\<lparr>buff := place obj (buff dst), func := Some f\<rparr>,
            src\<lparr>buff := place left (buff src)\<rparr>, w')"
    by (intro assign_another_move_ok) (simp_all add: as_any_def plain_def)
next
  assume "func src = Some f"
    and "move_ctor (P (fn_type f)) (as_any P (plain (fn_type f)) src) w = (Inr (obj, left), w')"
  then show "static_any_from_another P Rvalue src init w
         = (None, \<lparr>buff = place obj init, func = Some f\<rparr>,
            src\<lparr>buff := place left (buff src)\<rparr>, w')"
    by (intro from_another_move_ok) (simp_all add: as_any_def plain_def)
qed

theorem source_after_copy_or_move_witness:
  "func any16_1 = Some (Operation 0 ''int'')
   \<and> move_ctor (test_program ''int'') (as_any test_program (plain ''int'') any16_1)
        (snd (destroy test_program any32_2 reset_counters)) = (Inr (int_1, int_1), reset_counters)
   \<and> move_ctor (test_program ''int'') (as_any test_program (plain ''int'') any16_1)
        reset_counters = (Inr (int_1, int_1), reset_counters)
   \<and> other_after (assign_another test_program Lvalue any16_1 any32_2 reset_counters) = any16_1
   \<and> assign_another test_program Rvalue any16_1 any32_2 reset_counters
       = (None, \<lparr>buff = int_1 @ replicate 28 0, func = Some (Operation 0 ''int'')\<rparr>,
          any16_1, reset_counters)
   \<and> static_any_from_another test_program Rvalue any16_1 storage32 reset_counters
       = (None, \<lparr>buff = int_1 @ replicate 28 0, func = Some (Operation 0 ''int'')\<rparr>,
          any16_1, reset_counters)
   \<and> type_any (other_after (assign_another test_program Rvalue any16_1 any32_2 reset_counters))
       = ''int''"
proof -
  have h: "func any16_1 = Some (Operation 0 ''int'')"
    "move_ctor (test_program (fn_type (Operation 0 ''int'')))
        (as_any test_program (plain (fn_type (Operation 0 ''int''))) any16_1)
        (snd (destroy test_program any32_2 reset_counters)) = (Inr (int_1, int_1), reset_counters)"
    "move_ctor (test_program (fn_type (Operation 0 ''int'')))
        (as_any test_program (plain (fn_type (Operation 0 ''int''))) any16_1)
        reset_counters = (Inr (int_1, int_1), reset_counters)"
    by (simp_all add: cpp_defs run_defs test_defs as_any_def)
  have t: "type_any any16_1 = ''int''"
    by (simp add: type_any_eq any16_1_def)
  have b: "any32_2\<lparr>buff := place int_1 (buff any32_2), func := Some (Operation 0 ''int'')\<rparr>
             = \<lparr>buff = int_1 @ replicate 28 0, func = Some (Operation 0 ''int'')\<rparr>"
    "\<lparr>buff = place int_1 storage32, func = Some (Operation 0 ''int'')\<rparr>
             = \<lparr>buff = int_1 @ replicate 28 0, func = Some (Operation 0 ''int'')\<rparr>"
    "any16_1\<lparr>buff := place int_1 (buff any16_1)\<rparr> = any16_1"
    by (simp_all add: test_defs place_def eval_nat_numeral)
  show ?thesis
    using h t b
      source_after_copy_or_move [where src = any16_1 and f = "Operation 0 ''int''"
        and P = test_program and dst = any32_2 and w = reset_counters and init = storage32
        and obj = int_1 and left = int_1 and w' = reset_counters]
    by (simp add: other_after_def)
qed

text \<open>
  C4. The constructor from an lvalue container issues \<open>move\<close>, not \<open>copy\<close>, through the
  source's dispatcher: built from a \<open>static_any<16>\<close> lvalue holding a \<open>CallCounter\<close>,
  a \<open>static_any<32>\<close> adopts the source's dispatcher, and \<open>CallCounter\<close> has counted one
  move construction and no copy construction.
\<close>

theorem construct_from_lvalue_moves:
  "static_any_from_another test_program Lvalue any16_CallCounter storage32 reset_counters
     = (None, \<lparr>buff = storage32, func = Some (Operation 0 ''CallCounter'')\<rparr>,
        any16_CallCounter,
        \<lparr>default_constructions = 0, copy_constructions = 0, move_constructions = 1,
         destructions = 0\<rparr>)"
  by (simp add: cpp_defs run_defs test_defs)

section \<open>Assignment of a value\<close>

text \<open>
  What \<open>assign\<close> leaves behind when the constructor it calls throws. For an lvalue \<open>_T\<close>
  is a reference type, \<open>cannot_throw\<close> is true and nothing is saved; for an rvalue the old
  bytes and dispatcher are put back unless the class is nothrow copy constructible.
\<close>

lemma assign_lvalue_copy_throws:
  assumes "copy_ctor (P U) (object_at (P U) t) (snd (destroy P a w)) = (Inl e, w')"
  shows "assign_value m P Lvalue (CppType U c NoRef) t a w = (Some e, a\<lparr>func := None\<rparr>, t, w')"
  using assms
  by (simp add: assign_value_def assign_def cpp_defs call_copy_or_move_def invoke_def
      case_prod_beta destroy_this)

lemma assign_rvalue_move_throws:
  assumes "move_ctor (P U) (object_at (P U) t) (snd (destroy P a w)) = (Inl e, w')"
  shows "assign_value m P Rvalue (CppType U c NoRef) t a w
           = (Some e, (if nothrow_copy (P U) then a\<lparr>func := None\<rparr> else a), t, w')"
  using assms
  by (simp add: assign_value_def assign_def cpp_defs call_copy_or_move_def invoke_def
      case_prod_beta destroy_this)

text \<open>
  C1. Assigning an lvalue whose copy constructor throws, here an \<open>unsafe_to_copy\<close>, to a
  \<open>static_any<16>\<close> holding the \<open>int\<close> 1234: the exception propagates and the container
  is left empty, its type \<open>typeid(void)\<close>; the 1234 is not restored.
\<close>

theorem assign_lvalue_throw_leaves_empty:
  "assign_value 0 test_program Lvalue (plain ''unsafe_to_copy'') [0] any16_1234 reset_counters
     = (Some (Thrown 123), any16_1234\<lparr>func := None\<rparr>, [0], reset_counters)
   \<and> empty_any (any16_1234\<lparr>func := None\<rparr>)
   \<and> type_any (any16_1234\<lparr>func := None\<rparr>) = typeid_void"
  by (simp add: cpp_defs run_defs test_defs type_any_def)

text \<open>
  On its own, \<open>reset\<close> on a non-empty container runs the payload's destructor once and
  leaves the container empty, of size 0.
\<close>

lemma reset_nonempty:
  assumes "func a = Some f"
  shows "reset P a w
           = (a\<lparr>func := None\<rparr>, dtor (P (fn_type f)) (object_at (P (fn_type f)) (buff a)) w)"
    and "empty_any (fst (reset P a w))"
    and "size_any P (fst (reset P a w)) = 0"
  using assms by (simp_all add: reset_def destroy_bound empty_any_def size_any_def)

text \<open>
  C2. A \<open>CallCounter\<close> is copy-constructed into a \<open>static_any<16>\<close>; the assignment of an
  \<open>unsafe_to_copy\<close> rvalue destroys it, throws, and puts its bytes and dispatcher back;
  the container's destructor then destroys it again. One payload was constructed in the
  container and \<open>CallCounter\<close> has counted two destructions.
\<close>

theorem restored_payload_destroyed_twice:
  "static_any_from_value 0 test_program Lvalue (plain ''CallCounter'') [0] storage16 reset_counters
     = (None, any16_CallCounter, [0], reset_counters\<lparr>copy_constructions := 1\<rparr>)
   \<and> assign_value 0 test_program Rvalue (plain ''unsafe_to_copy'') [0] any16_CallCounter
         (reset_counters\<lparr>copy_constructions := 1\<rparr>)
     = (Some (Thrown 123), any16_CallCounter, [0],
        reset_counters\<lparr>copy_constructions := 1, destructions := 1\<rparr>)
   \<and> static_any_dtor test_program any16_CallCounter
         (reset_counters\<lparr>copy_constructions := 1, destructions := 1\<rparr>)
     = \<lparr>default_constructions = 0, copy_constructions = 1, move_constructions = 0,
        destructions = 2\<rparr>"
  by (simp add: cpp_defs run_defs test_defs static_any_from_value_def)

section \<open>emplace\<close>

lemma emplace_empty:
  assumes "func a = None" and "ctor w = (Inl e, w')"
  shows "emplace m P T ctor a w = (Some e, a, w')"
  using assms
  by (simp add: emplace_def empty_any_def destroy_empty static_any_default_def
      static_any_dtor_def)

lemma emplace_not_noexcept:
  assumes "func a = Some f" and "\<not> query_noexcept P f"
    and "ctor (snd (destroy P a w)) = (Inl e, w')"
  shows "emplace m P T ctor a w = (Some e, a\<lparr>func := None\<rparr>, w')"
  using assms
  by (simp add: emplace_def empty_any_def destroy_bound static_any_default_def
      static_any_dtor_def destroy_def)

lemma emplace_noexcept:
  assumes f: "func a = Some f" and n: "query_noexcept P f"
    and mv_out: "move_ctor (P (fn_type f)) (object_at (P (fn_type f)) (buff a)) w = (Inr (va, sa), wa)"
    and c: "ctor (dtor (P (fn_type f)) (object_at (P (fn_type f)) (place sa (buff a))) wa)
              = (Inl e, wb)"
    and mv_back: "move_ctor (P (fn_type f))
               (object_at (P (fn_type f)) (place va (replicate (capacity a) 0))) wb
              = (Inr (vb, sb), wc)"
  shows "emplace m P T ctor a w
           = (Some e, a\<lparr>buff := place vb (place sa (buff a))\<rparr>,
              dtor (P (fn_type f))
                (object_at (P (fn_type f)) (place sb (place va (replicate (capacity a) 0)))) wc)"
proof -
  let ?fresh = "static_any_default (replicate (capacity a) 0)"
  let ?side = "?fresh\<lparr>buff := place va (buff ?fresh), func := Some f\<rparr>"
  let ?moved = "a\<lparr>buff := place sa (buff a)\<rparr>"
  let ?gone = "?moved\<lparr>func := None\<rparr>"
  have fresh: "func ?fresh = None" by (simp add: static_any_default_def)
  have step1: "assign_another P Rvalue a ?fresh w = (None, ?side, ?moved, wa)"
    using f mv_out assign_another_move_ok [where src = a and f = f and P = P and dst = ?fresh
        and w = w and obj = va and left = sa and w' = wa]
    by (simp add: destroy_empty fresh)
  have d: "destroy P ?moved wa
             = (?gone, dtor (P (fn_type f)) (object_at (P (fn_type f)) (place sa (buff a))) wa)"
    using f by (simp add: destroy_bound)
  have step2: "assign_another P Rvalue ?side ?gone wb
                 = (None, ?gone\<lparr>buff := place vb (buff ?gone), func := Some f\<rparr>,
                    ?side\<lparr>buff := place sb (buff ?side)\<rparr>, wc)"
    using mv_back assign_another_move_ok [where src = ?side and f = f and P = P and dst = ?gone
        and w = wb and obj = vb and left = sb and w' = wc]
    by (simp add: destroy_empty static_any_default_def)
  have fin: "static_any_dtor P (?side\<lparr>buff := place sb (buff ?side)\<rparr>) wc
               = dtor (P (fn_type f))
                   (object_at (P (fn_type f)) (place sb (place va (replicate (capacity a) 0)))) wc"
    by (simp add: static_any_dtor_def destroy_bound static_any_default_def)
  show ?thesis
    unfolding emplace_def Let_def
    using f n c fin by (simp add: empty_any_def step1 d step2)
qed

text \<open>
  C5, as the code has it. \<open>MoveOnce\<close> is nothrow copy constructible, so its dispatcher
  reports the no-throw guarantee, and \<open>emplace\<close> moves it aside. When the constructor of
  the new type has thrown, moving it back throws too: the container is left empty and the
  exception of the move, not the constructor's, leaves \<open>emplace\<close>.
\<close>

theorem emplace_restore_throws:
  "func any16_MoveOnce = Some (Operation 0 ''MoveOnce'')
   \<and> query_noexcept test_program (Operation 0 ''MoveOnce'')
   \<and> unsafe_to_construct_ctor reset_counters = (Inl (Thrown 123), reset_counters)
   \<and> emplace 0 test_program (plain ''unsafe_to_construct'') unsafe_to_construct_ctor
         any16_MoveOnce reset_counters
     = (Some (Thrown 7), any16_MoveOnce\<lparr>func := None\<rparr>,
        \<lparr>default_constructions = 0, copy_constructions = 0, move_constructions = 1,
         destructions = 2\<rparr>)
   \<and> empty_any (any16_MoveOnce\<lparr>func := None\<rparr>)"
  by (simp add: cpp_defs run_defs test_defs emplace_def capacity_def any16_MoveOnce_def
      unsafe_to_construct_ctor_def)

text \<open>
  C5, amended. Let the constructor of \<open>T\<close> throw \<open>e\<close> when \<open>emplace<T>\<close> calls it. If the
  container was empty it stays empty, and \<open>e\<close> propagates. If it held a value whose
  dispatcher does not report the no-throw guarantee, it is empty afterwards and \<open>e\<close>
  propagates. If it held a value whose dispatcher reports the guarantee and that value's
  move constructor returns both times \<open>emplace\<close> calls it (aside, giving \<open>va\<close>, and back,
  giving \<open>vb\<close>), then \<open>e\<close> propagates and the container is not empty, reports the type it
  held and holds \<open>vb\<close>: the value it held, when the moves carry the value over.
\<close>

theorem emplace_ctor_throws:
  "(func a = None \<and> ctor w = (Inl e, w') \<longrightarrow>
      emplace m P T ctor a w = (Some e, a, w') \<and> empty_any a)
   \<and> (func a = Some f \<and> \<not> query_noexcept P f
        \<and> ctor (snd (destroy P a w)) = (Inl e, w') \<longrightarrow>
      emplace m P T ctor a w = (Some e, a\<lparr>func := None\<rparr>, w')
      \<and> empty_any (a\<lparr>func := None\<rparr>))
   \<and> (func a = Some f \<and> query_noexcept P f
        \<and> move_ctor (P (fn_type f)) (as_any P (plain (fn_type f)) a) w = (Inr (va, sa), wa)
        \<and> ctor (dtor (P (fn_type f)) (object_at (P (fn_type f)) (place sa (buff a))) wa)
             = (Inl e, wb)
        \<and> move_ctor (P (fn_type f))
             (object_at (P (fn_type f)) (place va (replicate (capacity a) 0))) wb
             = (Inr (vb, sb), wc) \<longrightarrow>
      (\<exists>a' wd. emplace m P T ctor a w = (Some e, a', wd)
         \<and> func a' = Some f \<and> \<not> empty_any a' \<and> type_any a' = type_any a
         \<and> buff a' = place vb (place sa (buff a))
         \<and> (sizeof (P (fn_type f)) \<le> capacity a \<and> va = as_any P (plain (fn_type f)) a
              \<and> vb = va \<longrightarrow>
              as_any P (plain (fn_type f)) a' = as_any P (plain (fn_type f)) a)))"
proof (intro conjI impI)
  assume "func a = None \<and> ctor w = (Inl e, w')"
  then show "emplace m P T ctor a w = (Some e, a, w')" and "empty_any a"
    by (simp_all add: emplace_empty empty_any_def)
next
  assume "func a = Some f \<and> \<not> query_noexcept P f \<and> ctor (snd (destroy P a w)) = (Inl e, w')"
  then show "emplace m P T ctor a w = (Some e, a\<lparr>func := None\<rparr>, w')"
    by (simp add: emplace_not_noexcept)
next
  show "empty_any (a\<lparr>func := None\<rparr>)"
    by (simp add: empty_any_def)
next
  let ?C = "P (fn_type f)"
  let ?U = "plain (fn_type f)"
  assume h: "func a = Some f \<and> query_noexcept P f
        \<and> move_ctor ?C (as_any P ?U a) w = (Inr (va, sa), wa)
        \<and> ctor (dtor ?C (object_at ?C (place sa (buff a))) wa) = (Inl e, wb)
        \<and> move_ctor ?C (object_at ?C (place va (replicate (capacity a) 0))) wb
             = (Inr (vb, sb), wc)"
  let ?res = "a\<lparr>buff := place vb (place sa (buff a))\<rparr>"
  let ?end = "dtor ?C (object_at ?C (place sb (place va (replicate (capacity a) 0)))) wc"
  have eq: "emplace m P T ctor a w = (Some e, ?res, ?end)"
    using h emplace_noexcept [where a = a and f = f and P = P and w = w and va = va
        and sa = sa and wa = wa and ctor = ctor and e = e and wb = wb and vb = vb
        and sb = sb and wc = wc and m = m and T = T]
    by (simp add: as_any_def plain_def)
  have bound: "func ?res = Some f" "\<not> empty_any ?res" "type_any ?res = type_any a"
    using h by (simp_all add: empty_any_def type_any_def)
  have same: "as_any P ?U ?res = as_any P ?U a"
    if "sizeof ?C \<le> capacity a \<and> va = as_any P ?U a \<and> vb = va"
  proof -
    from that have "length vb = sizeof ?C"
      by (simp add: as_any_def plain_def object_at_def capacity_def)
    then have "as_any P ?U ?res = vb"
      by (simp add: as_any_def plain_def object_at_place)
    with that show ?thesis by simp
  qed
  show "\<exists>a' wd. emplace m P T ctor a w = (Some e, a', wd)
         \<and> func a' = Some f \<and> \<not> empty_any a' \<and> type_any a' = type_any a
         \<and> buff a' = place vb (place sa (buff a))
         \<and> (sizeof ?C \<le> capacity a \<and> va = as_any P ?U a \<and> vb = va \<longrightarrow>
              as_any P ?U a' = as_any P ?U a)"
    using eq bound same by (intro exI [of _ ?res] exI [of _ ?end]) simp
qed

theorem emplace_ctor_throws_witness:
  "empty_any (static_any_default storage16)
   \<and> unsafe_to_construct_ctor reset_counters = (Inl (Thrown 123), reset_counters)
   \<and> emplace 0 test_program (plain ''unsafe_to_construct'') unsafe_to_construct_ctor
         (static_any_default storage16) reset_counters
       = (Some (Thrown 123), static_any_default storage16, reset_counters)
   \<and> func any16_CallCounter = Some (Operation 0 ''CallCounter'')
   \<and> \<not> query_noexcept test_program (Operation 0 ''CallCounter'')
   \<and> emplace 0 test_program (plain ''unsafe_to_construct'') unsafe_to_construct_ctor
         any16_CallCounter reset_counters
       = (Some (Thrown 123), any16_CallCounter\<lparr>func := None\<rparr>,
          reset_counters\<lparr>destructions := 1\<rparr>)
   \<and> func any16_1234 = Some (Operation 0 ''int'')
   \<and> query_noexcept test_program (Operation 0 ''int'')
   \<and> move_ctor (test_program ''int'') (as_any test_program (plain ''int'') any16_1234)
         reset_counters = (Inr (int_1234, int_1234), reset_counters)
   \<and> emplace 0 test_program (plain ''unsafe_to_construct'') unsafe_to_construct_ctor
         any16_1234 reset_counters
       = (Some (Thrown 123), any16_1234, reset_counters)"
proof -
  have e: "func (static_any_default storage16) = None
      \<and> unsafe_to_construct_ctor reset_counters = (Inl (Thrown 123), reset_counters)"
    by (simp add: static_any_default_def unsafe_to_construct_ctor_def)
  have c: "func any16_CallCounter = Some (Operation 0 ''CallCounter'')
      \<and> \<not> query_noexcept test_program (Operation 0 ''CallCounter'')
      \<and> unsafe_to_construct_ctor (snd (destroy test_program any16_CallCounter reset_counters))
          = (Inl (Thrown 123), reset_counters\<lparr>destructions := 1\<rparr>)"
    by (simp add: cpp_defs run_defs test_defs unsafe_to_construct_ctor_def)
  have i: "func any16_1234 = Some (Operation 0 ''int'')
      \<and> query_noexcept test_program (Operation 0 ''int'')
      \<and> move_ctor (test_program (fn_type (Operation 0 ''int'')))
           (as_any test_program (plain (fn_type (Operation 0 ''int''))) any16_1234) reset_counters
          = (Inr (int_1234, int_1234), reset_counters)
      \<and> unsafe_to_construct_ctor
           (dtor (test_program (fn_type (Operation 0 ''int'')))
              (object_at (test_program (fn_type (Operation 0 ''int'')))
                 (place int_1234 (buff any16_1234))) reset_counters)
          = (Inl (Thrown 123), reset_counters)
      \<and> move_ctor (test_program (fn_type (Operation 0 ''int'')))
           (object_at (test_program (fn_type (Operation 0 ''int'')))
              (place int_1234 (replicate (capacity any16_1234) 0))) reset_counters
          = (Inr (int_1234, int_1234), reset_counters)"
    by (simp add: cpp_defs run_defs test_defs as_any_def capacity_def unsafe_to_construct_ctor_def)
  have b: "buff any16_1234 = place int_1234 (place int_1234 (buff any16_1234))"
    by (simp add: test_defs place_def)
  from i emplace_ctor_throws [where a = any16_1234 and f = "Operation 0 ''int''"
      and P = test_program and w = reset_counters and va = int_1234 and sa = int_1234
      and wa = reset_counters and ctor = unsafe_to_construct_ctor and e = "Thrown 123"
      and wb = reset_counters and vb = int_1234 and sb = int_1234 and wc = reset_counters
      and m = 0 and T = "plain ''unsafe_to_construct''"]
  obtain a' wd where r:
    "emplace 0 test_program (plain ''unsafe_to_construct'') unsafe_to_construct_ctor
       any16_1234 reset_counters = (Some (Thrown 123), a', wd)"
    "func a' = Some (Operation 0 ''int'')"
    "buff a' = place int_1234 (place int_1234 (buff any16_1234))"
    by auto
  have a': "a' = any16_1234"
    using r(2,3) b i by (intro static_any.equality) simp_all
  have wd: "wd = reset_counters"
    using r(1)
    by (simp add: cpp_defs run_defs test_defs emplace_def capacity_def unsafe_to_construct_ctor_def)
  show ?thesis
    using e c i r(1) a' wd
      emplace_ctor_throws [where a = "static_any_default storage16" and ctor = unsafe_to_construct_ctor
        and w = reset_counters and e = "Thrown 123" and w' = reset_counters
        and m = 0 and P = test_program and T = "plain ''unsafe_to_construct''"
        and f = "Operation 0 ''int''" and va = int_1234 and sa = int_1234
        and wa = reset_counters and wb = reset_counters and vb = int_1234 and sb = int_1234
        and wc = reset_counters]
      emplace_ctor_throws [where a = any16_CallCounter and ctor = unsafe_to_construct_ctor
        and w = reset_counters and e = "Thrown 123"
        and w' = "reset_counters\<lparr>destructions := 1\<rparr>"
        and m = 0 and P = test_program and T = "plain ''unsafe_to_construct''"
        and f = "Operation 0 ''CallCounter''" and va = int_1234 and sa = int_1234
        and wa = reset_counters and wb = reset_counters and vb = int_1234 and sb = int_1234
        and wc = reset_counters]
    by (simp add: empty_any_def)
qed

section \<open>Type queries and casts\<close>

text \<open>
  C7. \<open>has<T>()\<close> is true exactly when the container holds a value and the type it was
  bound for is \<open>T\<close> (as \<open>typeid\<close> names it): it is false for the empty container and for
  every other stored type.
  Types are compared by identity, whatever binary instantiated the dispatcher: when the
  container was filled in another binary \<open>m'\<close>, the pointer comparison fails and the
  comparison of the type identities still answers true.
\<close>

theorem has_exact_type:
  "(has m T a \<longleftrightarrow> (case func a of None \<Rightarrow> False | Some f \<Rightarrow> fn_type f = typeid T))
   \<and> (func a = Some (get_function_for_type m' T) \<and> m' \<noteq> m \<longrightarrow>
        func a \<noteq> Some (get_function_for_type m T) \<and> has m T a)"
  by (cases "func a") (auto simp: has_iff typeid_def get_function_for_type_base)

theorem has_exact_type_witness:
  "func any_with_int_7 = Some (get_function_for_type 1 (plain ''int''))
   \<and> (1::nat) \<noteq> 0
   \<and> func any_with_int_7 \<noteq> Some (get_function_for_type 0 (plain ''int''))
   \<and> has 0 (plain ''int'') any_with_int_7
   \<and> \<not> has 0 (plain ''std::string'') any_with_int_7"
  using has_exact_type [of 0 "plain ''int''" any_with_int_7 1]
    has_exact_type [of 0 "plain ''std::string''" any_with_int_7 1]
  by (simp add: get_function_for_type_base plain_def typeid_def any_with_int_7_def)

text \<open>
  C8. When \<open>has<T>()\<close> is false, which it is for the empty container, the pointer casts
  return the null pointer, and the reference casts and \<open>get<T>()\<close> throw a \<open>bad_any_cast\<close>
  whose \<open>stored_type()\<close> is the type held (\<open>typeid(void)\<close> when empty) and whose
  \<open>target_type()\<close> is \<open>T\<close>.
\<close>

theorem any_cast_mismatch:
  "(empty_any a \<longrightarrow> \<not> has m T a)
   \<and> (\<not> has m T a \<longrightarrow>
        any_cast_ptr m P T a = None
      \<and> any_cast_const_ptr m P T a = None
      \<and> (\<exists>ex. any_cast m P T a = Inl (Bad_any_cast ex)
            \<and> get_any m P T a = Inl (Bad_any_cast ex)
            \<and> get_any_const m P T a = Inl (Bad_any_cast ex)
            \<and> stored_type ex = (case func a of None \<Rightarrow> typeid_void | Some f \<Rightarrow> fn_type f)
            \<and> stored_type ex = type_any a
            \<and> target_type ex = typeid T))"
proof (intro conjI impI)
  assume "empty_any a"
  then show "\<not> has m T a" by (simp add: has_iff empty_any_def)
next
  assume "\<not> has m T a"
  then show "any_cast_ptr m P T a = None" by (simp add: any_cast_ptr_def)
next
  assume "\<not> has m T a"
  then show "any_cast_const_ptr m P T a = None"
    by (simp add: any_cast_const_ptr_def any_cast_ptr_def has_add_const)
next
  assume h: "\<not> has m T a"
  let ?ex = "bad_any_cast_ctor (type_any a) (typeid T)"
  have 1: "any_cast m P T a = Inl (Bad_any_cast ?ex)"
    using h by (simp add: any_cast_def)
  have 2: "get_any_const m P T a = Inl (Bad_any_cast ?ex)"
    using h by (simp add: get_any_const_def any_cast_const_def any_cast_def has_add_const
        typeid_def base_add_const)
  have 3: "stored_type ?ex = type_any a" "target_type ?ex = typeid T"
    by (simp_all add: stored_type_def target_type_def bad_any_cast_ctor_def)
  show "\<exists>ex. any_cast m P T a = Inl (Bad_any_cast ex)
            \<and> get_any m P T a = Inl (Bad_any_cast ex)
            \<and> get_any_const m P T a = Inl (Bad_any_cast ex)
            \<and> stored_type ex = (case func a of None \<Rightarrow> typeid_void | Some f \<Rightarrow> fn_type f)
            \<and> stored_type ex = type_any a
            \<and> target_type ex = typeid T"
    using 1 2 3 by (intro exI [of _ ?ex]) (simp add: get_any_def type_any_eq)
qed

theorem any_cast_mismatch_witness:
  "\<not> has 0 (plain ''float'') any16_1234
   \<and> any_cast_ptr 0 test_program (plain ''float'') any16_1234 = None
   \<and> any_cast 0 test_program (plain ''float'') any16_1234
       = Inl (Bad_any_cast (bad_any_cast_ctor ''int'' ''float''))
   \<and> empty_any (static_any_default storage16)
   \<and> get_any 0 test_program (plain ''int'') (static_any_default storage16)
       = Inl (Bad_any_cast (bad_any_cast_ctor ''void'' ''int''))"
  using any_cast_mismatch [of any16_1234 0 "plain ''float''" test_program]
    any_cast_mismatch [of "static_any_default storage16" 0 "plain ''int''" test_program]
  by (simp add: has_iff any16_1234_def plain_def static_any_default_def empty_any_def
      any_cast_def get_any_def type_any_eq typeid_def typeid_void_def)

text \<open>
  C10. The dispatcher is always the instantiation for the type without its reference and
  its top-level \<open>const\<close>: for \<open>const U\<close>, \<open>U&\<close>, \<open>const U&\<close> and \<open>U&&\<close>,
  \<open>get_function_for_type\<close> gives the address of \<open>operation<U>\<close>, which is not the
  address of the instantiation for the type as written; a construction or an assignment
  from any of them that returns binds \<open>operation<U>\<close>; \<open>has\<close> answers the same for all
  of them, and true when a \<open>U\<close> is held.
\<close>

theorem type_matching_ignores_cv_ref:
  "get_function_for_type m (CppType U c r) = Operation m U
   \<and> (c \<or> r \<noteq> NoRef \<longrightarrow> Instance m (CppType U c r) \<noteq> Operation m U)
   \<and> (copy_or_move m P (CppType U c r) t a w = (None, a', t', w') \<longrightarrow>
        func a' = Some (Operation m U))
   \<and> (assign m P (CppType U c r) t a w = (None, a', t', w') \<longrightarrow>
        func a' = Some (Operation m U))
   \<and> has m (CppType U c r) a = has m (plain U) a
   \<and> (func a = Some (Operation m' U) \<longrightarrow>
        has m (CppType U True NoRef) a \<and> has m (plain U) a)"
proof (intro conjI impI)
  show "get_function_for_type m (CppType U c r) = Operation m U"
    by (simp add: get_function_for_type_def remove_cv_remove_reference Operation_def)
next
  assume "c \<or> r \<noteq> NoRef"
  then show "Instance m (CppType U c r) \<noteq> Operation m U"
    by (auto simp: Operation_def plain_def)
next
  assume "copy_or_move m P (CppType U c r) t a w = (None, a', t', w')"
  then show "func a' = Some (Operation m U)"
    using copy_or_move_binds [of m P "CppType U c r" t a w a' t' w'] by simp
next
  assume "assign m P (CppType U c r) t a w = (None, a', t', w')"
  then show "func a' = Some (Operation m U)"
    using assign_binds [of m P "CppType U c r" t a w a' t' w'] by simp
next
  show "has m (CppType U c r) a = has m (plain U) a"
    by (simp add: has_iff plain_def)
next
  assume "func a = Some (Operation m' U)"
  then show "has m (CppType U True NoRef) a" and "has m (plain U) a"
    by (simp_all add: has_iff plain_def)
qed

theorem type_matching_ignores_cv_ref_witness:
  "static_any_from_value 0 test_program Lvalue (CppType ''int'' True NoRef) int_1234 storage16
       reset_counters
     = (None, any16_1234, int_1234, reset_counters)
   \<and> assign_value 0 test_program Lvalue (plain ''int'') int_1234 any16_1 reset_counters
     = (None, any16_1234, int_1234, reset_counters)
   \<and> assign_value 0 test_program Rvalue (CppType ''int'' True NoRef) int_1234 any16_1
       reset_counters
     = (None, any16_1234, int_1234, reset_counters)
   \<and> func any16_1234 = Some (Operation 0 ''int'')
   \<and> Instance 0 (CppType ''int'' True LvalueRef) \<noteq> Operation 0 ''int''
   \<and> get_function_for_type 0 (CppType ''int'' True LvalueRef) = Operation 0 ''int''
   \<and> has 0 (CppType ''int'' True NoRef) any16_1234
   \<and> has 0 (plain ''int'') any16_1234"
proof -
  have 1: "copy_or_move 0 test_program (CppType ''int'' True LvalueRef) int_1234
       (static_any_default storage16) reset_counters
     = (None, any16_1234, int_1234, reset_counters)"
    by (simp add: cpp_defs run_defs test_defs)
  have 2: "assign 0 test_program (CppType ''int'' False LvalueRef) int_1234 any16_1 reset_counters
     = (None, any16_1234, int_1234, reset_counters)"
    by (simp add: cpp_defs run_defs test_defs)
  have 3: "assign 0 test_program (CppType ''int'' True NoRef) int_1234 any16_1 reset_counters
     = (None, any16_1234, int_1234, reset_counters)"
    by (simp add: cpp_defs run_defs test_defs)
  have d: "deduce Lvalue (CppType ''int'' True NoRef) = CppType ''int'' True LvalueRef"
    "deduce Lvalue (plain ''int'') = CppType ''int'' False LvalueRef"
    "deduce Rvalue (CppType ''int'' True NoRef) = CppType ''int'' True NoRef"
    by (simp_all add: deduce_def plain_def)
  show ?thesis
    using 1 2 3
      type_matching_ignores_cv_ref [where m = 0 and U = "''int''" and c = True
        and r = LvalueRef and P = test_program and t = int_1234
        and a = "static_any_default storage16" and w = reset_counters
        and a' = any16_1234 and t' = int_1234 and w' = reset_counters and m' = 0]
      type_matching_ignores_cv_ref [where m = 0 and U = "''int''" and c = False
        and r = LvalueRef and P = test_program and t = int_1234
        and a = any16_1 and w = reset_counters
        and a' = any16_1234 and t' = int_1234 and w' = reset_counters and m' = 0]
      type_matching_ignores_cv_ref [where m = 0 and U = "''int''" and c = True
        and r = NoRef and P = test_program and t = int_1234
        and a = any16_1 and w = reset_counters
        and a' = any16_1234 and t' = int_1234 and w' = reset_counters and m' = 0]
      type_matching_ignores_cv_ref [where m = 0 and U = "''int''" and c = True
        and r = NoRef and P = test_program and t = int_1234
        and a = any16_1234 and w = reset_counters
        and a' = any16_1234 and t' = int_1234 and w' = reset_counters and m' = 0]
    by (simp add: static_any_from_value_def assign_value_def d)
qed

section \<open>The trivial container\<close>

text \<open>
  C9. A value no larger than the capacity, stored in a \<open>static_any_t\<close> by construction or
  by assignment and read back with \<open>get\<close> at its own type, comes back byte for byte, and
  the store stays within the buffer. Copying one \<open>static_any_t\<close> from another of the same
  capacity, by the defaulted copy constructor or through the templates, copies the whole
  buffer, whatever was stored in it.
\<close>

theorem static_any_t_roundtrip:
  "length v \<le> capacity_t a \<longrightarrow>
     get_t (length v) (assign_t v a) = v
   \<and> get_t (length v) (static_any_t_from_value v (tbuff a)) = v
   \<and> capacity_t (assign_t v a) = capacity_t a
   \<and> tbuff (static_any_t_copy_ctor b) = tbuff b
   \<and> (capacity_t b = capacity_t a \<longrightarrow>
         tbuff (assign_t_another b a) = tbuff b
       \<and> tbuff (static_any_t_from_another b (tbuff a)) = tbuff b)"
  by (simp add: get_t_def assign_t_def copy_t_def static_any_t_from_value_def capacity_t_def
      static_any_t_copy_ctor_def assign_t_another_def static_any_t_from_another_def)

theorem static_any_t_roundtrip_witness:
  "length int_1234 \<le> capacity_t \<lparr>tbuff = replicate 4 0\<rparr>
   \<and> get_t (length int_1234) (assign_t int_1234 \<lparr>tbuff = replicate 4 0\<rparr>) = int_1234
   \<and> capacity_t \<lparr>tbuff = int_1234\<rparr> = capacity_t \<lparr>tbuff = replicate 4 0\<rparr>
   \<and> tbuff (assign_t_another \<lparr>tbuff = int_1234\<rparr> \<lparr>tbuff = replicate 4 0\<rparr>) = int_1234"
  using static_any_t_roundtrip [of int_1234 "\<lparr>tbuff = replicate 4 0\<rparr>" "\<lparr>tbuff = int_1234\<rparr>"]
  by (simp add: capacity_t_def int_1234_def)

end
